theory Spec2Isabelle
  imports Complex_Main "HOL-Library.Sublist"
begin

section \<open>Python values\<close>

text \<open>
  A Python \<^verbatim>\<open>str\<close> is a sequence of Unicode code points, so a string is the list of
  its code points and \<^verbatim>\<open>ord\<close> reads one of them as an integer.  String constants of
  the source are written as ASCII literals and converted with \<open>ascii\<close>.
\<close>

type_synonym pystr = "nat list"

definition ascii :: "string \<Rightarrow> pystr" where
  "ascii s = map (of_char :: char \<Rightarrow> nat) s"

definition py_ord :: "nat \<Rightarrow> int" where
  "py_ord character = int character"

text \<open>
  The event handed to the handler is a decoded JSON document: its values are
  \<^verbatim>\<open>None\<close>, booleans, integers, (finite) floats, strings, lists and dictionaries.
\<close>

datatype pyval =
    PNone
  | PBool bool
  | PInt int
  | PFloat rat
  | PStr pystr
  | PList "pyval list"
  | PDict "(pystr \<times> pyval) list"

datatype pytype = NoneType | TBool | TInt | TFloat | TStr | TList | TDict

fun type_of :: "pyval \<Rightarrow> pytype" where
  "type_of PNone = NoneType"
| "type_of (PBool b) = TBool"
| "type_of (PInt n) = TInt"
| "type_of (PFloat q) = TFloat"
| "type_of (PStr s) = TStr"
| "type_of (PList xs) = TList"
| "type_of (PDict kvs) = TDict"

text \<open>The exceptions the program can raise; \<open>External\<close> is one raised by a collaborator
  (tweepy, boto3), identified by an opaque name.\<close>

datatype exn =
    ValueError pystr
  | AssertionError
  | KeyError pystr
  | AttributeError
  | TypeError
  | External pystr

text \<open>\<^verbatim>\<open>for x in v\<close>: a list yields its elements, a string its characters, a dictionary its
  keys; any other JSON value is not iterable.\<close>

fun iterate :: "pyval \<Rightarrow> exn + pyval list" where
  "iterate (PList xs) = Inr xs"
| "iterate (PStr s) = Inr (map (\<lambda>c. PStr [c]) s)"
| "iterate (PDict kvs) = Inr (map (\<lambda>kv. PStr (fst kv)) kvs)"
| "iterate v = Inl TypeError"

text \<open>\<^verbatim>\<open>x in s\<close> for a set \<open>s\<close> of integers: lists and dictionaries are unhashable; a
  boolean equals 0 or 1, a float equals the integer of the same value; a string or
  \<^verbatim>\<open>None\<close> equals no integer.\<close>

fun py_in_set :: "pyval \<Rightarrow> int set \<Rightarrow> exn + bool" where
  "py_in_set (PInt n) s = Inr (n \<in> s)"
| "py_in_set (PBool b) s = Inr ((if b then 1 else 0) \<in> s)"
| "py_in_set (PFloat q) s = Inr (\<exists>n\<in>s. of_int n = q)"
| "py_in_set (PStr t) s = Inr False"
| "py_in_set PNone s = Inr False"
| "py_in_set (PList xs) s = Inl TypeError"
| "py_in_set (PDict kvs) s = Inl TypeError"

text \<open>\<^verbatim>\<open>sep.join(xs)\<close>, accumulating from the first element.\<close>

definition str_join :: "pystr \<Rightarrow> pystr list \<Rightarrow> pystr" where
  "str_join sep xs =
     (case xs of [] \<Rightarrow> [] | x # rest \<Rightarrow> foldl (\<lambda>acc y. acc @ sep @ y) x rest)"

text \<open>\<^verbatim>\<open>str.lower\<close> belongs to the Python runtime (it reads the Unicode case tables), so
  the functions below take it as a parameter \<open>lower\<close>.  On code points below 128 it is
  the following function, which the concrete examples use.\<close>

definition lower_ascii :: "pystr \<Rightarrow> pystr" where
  "lower_ascii s = map (\<lambda>c. if 65 \<le> c \<and> c \<le> 90 then c + 32 else c) s"

text \<open>
  CPython's \<^verbatim>\<open>str.lower\<close> on strings over the code points 0 to 127 and the Greek letters
  U+0391 to U+03A9 and U+03B1 to U+03C9 (other code points are left as they are: the full
  Unicode tables are not modelled).  Every character is lower-cased on its own, except
  the capital sigma U+03A3 (931): it becomes the final sigma U+03C2 (962) when,
  skipping case-ignorable characters, a cased character stands before it and none
  after it, and the small sigma U+03C3 (963) otherwise
  (\<^verbatim>\<open>handle_capital_sigma\<close> in \<^verbatim>\<open>unicodeobject.c\<close>).
\<close>

definition to_lower :: "nat \<Rightarrow> nat" where
  "to_lower c =
     (if 65 \<le> c \<and> c \<le> 90 then c + 32
      else if (913 \<le> c \<and> c \<le> 929) \<or> (931 \<le> c \<and> c \<le> 937) then c + 32
      else c)"

definition is_cased :: "nat \<Rightarrow> bool" where
  "is_cased c \<longleftrightarrow>
     (65 \<le> c \<and> c \<le> 90) \<or> (97 \<le> c \<and> c \<le> 122) \<or>
     (913 \<le> c \<and> c \<le> 929) \<or> (931 \<le> c \<and> c \<le> 937) \<or> (945 \<le> c \<and> c \<le> 969)"

definition is_case_ignorable :: "nat \<Rightarrow> bool" where
  "is_case_ignorable c \<longleftrightarrow> c \<in> {39, 46, 58, 94, 96}"

text \<open>\<open>before\<close> holds the characters before the sigma, the nearest first.\<close>

definition final_sigma :: "pystr \<Rightarrow> pystr \<Rightarrow> bool" where
  "final_sigma before rest \<longleftrightarrow>
     (case dropWhile is_case_ignorable before of [] \<Rightarrow> False | c # cs \<Rightarrow> is_cased c) \<and>
     (case dropWhile is_case_ignorable rest of [] \<Rightarrow> True | c # cs \<Rightarrow> \<not> is_cased c)"

fun py_lower_from :: "pystr \<Rightarrow> pystr \<Rightarrow> pystr" where
  "py_lower_from before [] = []"
| "py_lower_from before (c # rest) =
     (if c = 931 then (if final_sigma before rest then 962 else 963) else to_lower c)
       # py_lower_from (c # before) rest"

definition py_lower :: "pystr \<Rightarrow> pystr" where
  "py_lower s = py_lower_from [] s"

section \<open>The matching loop of \<^verbatim>\<open>_get_matching_tweets\<close>\<close>

text \<open>A status object of the feed; the program reads its attribute \<^verbatim>\<open>text\<close> only
  (written \<open>text'\<close>, the plain name being reserved).\<close>

record tweet =
  text' :: pystr

text \<open>
  \<^verbatim>\<open>for search_term in search_terms:
      if search_term.lower() not in tweet_text.lower():
          matching = False
          break\<close>
  Only a string has the method \<^verbatim>\<open>lower\<close>; \<^verbatim>\<open>in\<close> between strings is the substring test.
\<close>

fun search_terms_loop :: "(pystr \<Rightarrow> pystr) \<Rightarrow> pystr \<Rightarrow> pyval list \<Rightarrow> bool \<Rightarrow> exn + bool" where
  "search_terms_loop lower tweet_text [] matching = Inr matching"
| "search_terms_loop lower tweet_text (search_term # rest) matching =
     (case search_term of
        PStr s \<Rightarrow>
          if \<not> sublist (lower s) (lower tweet_text) then Inr False
          else search_terms_loop lower tweet_text rest matching
      | _ \<Rightarrow> Inl AttributeError)"

text \<open>
  \<^verbatim>\<open>for special_unicode_char in special_unicode:
      if special_unicode_char not in unicode_chars_in_tweet:
          matching = False
          break\<close>
\<close>

fun special_unicode_loop :: "int set \<Rightarrow> pyval list \<Rightarrow> bool \<Rightarrow> exn + bool" where
  "special_unicode_loop unicode_chars_in_tweet [] matching = Inr matching"
| "special_unicode_loop unicode_chars_in_tweet (special_unicode_char # rest) matching =
     (case py_in_set special_unicode_char unicode_chars_in_tweet of
        Inl e \<Rightarrow> Inl e
      | Inr present \<Rightarrow>
          if \<not> present then Inr False
          else special_unicode_loop unicode_chars_in_tweet rest matching)"

text \<open>The body of the loop over the tweets, up to the final value of \<^verbatim>\<open>matching\<close>.  The
  second loop runs whatever the first one decided.\<close>

definition tweet_matching :: "(pystr \<Rightarrow> pystr) \<Rightarrow> pystr \<Rightarrow> pyval \<Rightarrow> pyval \<Rightarrow> exn + bool" where
  "tweet_matching lower tweet_text search_terms special_unicode =
     (let unicode_chars_in_tweet = set (map py_ord tweet_text) in
      case iterate search_terms of
        Inl e \<Rightarrow> Inl e
      | Inr terms \<Rightarrow>
         (case search_terms_loop lower tweet_text terms True of
            Inl e \<Rightarrow> Inl e
          | Inr matching \<Rightarrow>
             (case iterate special_unicode of
                Inl e \<Rightarrow> Inl e
              | Inr codes \<Rightarrow> special_unicode_loop unicode_chars_in_tweet codes matching)))"

fun tweets_loop ::
  "(pystr \<Rightarrow> pystr) \<Rightarrow> tweet list \<Rightarrow> pyval \<Rightarrow> pyval \<Rightarrow> pystr list \<Rightarrow> exn + pystr list" where
  "tweets_loop lower [] search_terms special_unicode matching_tweets = Inr matching_tweets"
| "tweets_loop lower (tw # user_tweets) search_terms special_unicode matching_tweets =
     (case tweet_matching lower (text' tw) search_terms special_unicode of
        Inl e \<Rightarrow> Inl e
      | Inr matching \<Rightarrow>
          tweets_loop lower user_tweets search_terms special_unicode
            (if matching then matching_tweets @ [text' tw] else matching_tweets))"

section \<open>Collaborators and outbound calls\<close>

text \<open>
  tweepy, boto3 and the process environment are outside the program.  A client object
  is a record of its methods, each returning its value or the exception it raises; the
  \<open>world\<close> holds what the modules offer: \<^verbatim>\<open>str.lower\<close>, the construction of an
  authorised \<^verbatim>\<open>tweepy.API\<close>, \<^verbatim>\<open>os.environ\<close> and \<^verbatim>\<open>boto3.client\<close>.
\<close>

record tweepy_client =
  user_timeline :: "pyval \<Rightarrow> exn + tweet list"

record sns_client =
  publish :: "pystr \<Rightarrow> pystr \<Rightarrow> pyval \<Rightarrow> exn + pyval"

record world =
  str_lower :: "pystr \<Rightarrow> pystr"
  tweepy_API :: "pyval \<Rightarrow> pyval \<Rightarrow> pyval \<Rightarrow> pyval \<Rightarrow> exn + tweepy_client"
  os_environ :: "pystr \<rightharpoonup> pystr"
  boto3_client :: "pystr \<Rightarrow> exn + sns_client"

text \<open>Every use of a collaborator is recorded, in order.  A step of the program takes the
  calls made so far and returns its outcome with the calls made up to its end.\<close>

datatype call =
    OAuth pyval pyval pyval pyval
  | UserTimeline pyval
  | EnvironRead pystr
  | Boto3Client pystr
  | Publish pystr pystr pyval

type_synonym 'a action = "call list \<Rightarrow> (exn + 'a) \<times> call list"

definition pure_step :: "exn + 'a \<Rightarrow> 'a action" where
  "pure_step r calls = (r, calls)"

text \<open>Sequencing: an exception of the first step ends the run; nothing catches it.\<close>

definition and_then :: "'a action \<Rightarrow> ('a \<Rightarrow> 'b action) \<Rightarrow> 'b action" where
  "and_then m f calls =
     (case m calls of
        (Inl e, calls') \<Rightarrow> (Inl e, calls')
      | (Inr x, calls') \<Rightarrow> f x calls')"

section \<open>The functions of \<^verbatim>\<open>app.py\<close>\<close>

definition get_aws_client :: "world \<Rightarrow> pystr \<Rightarrow> sns_client option \<Rightarrow> sns_client action" where
  "get_aws_client w service client calls =
     (case client of
        None \<Rightarrow> (boto3_client w service, calls @ [Boto3Client service])
      | Some c \<Rightarrow> (Inr c, calls))"

definition get_sns_client :: "world \<Rightarrow> sns_client option \<Rightarrow> sns_client action" where
  "get_sns_client w client = get_aws_client w (ascii ''sns'') client"

definition send_message :: "pystr \<Rightarrow> pyval \<Rightarrow> pystr \<Rightarrow> sns_client \<Rightarrow> pyval action" where
  "send_message message subject topic_arn client calls =
     (let response = publish client topic_arn message subject
      in (response, calls @ [Publish topic_arn message subject]))"

text \<open>A dictionary is a map from its keys; \<^verbatim>\<open>d[k]\<close> raises \<^verbatim>\<open>KeyError\<close> on a missing key.\<close>

type_synonym event = "pystr \<rightharpoonup> pyval"

definition getitem :: "(pystr \<rightharpoonup> 'v) \<Rightarrow> pystr \<Rightarrow> exn + 'v" where
  "getitem d k = (case d k of None \<Rightarrow> Inl (KeyError k) | Some v \<Rightarrow> Inr v)"

definition required_inputs :: "pystr list" where
  "required_inputs =
     [ascii ''subject'', ascii ''consumer_key'', ascii ''consumer_secret'',
      ascii ''access_token'', ascii ''access_token_secret'', ascii ''screen_name'',
      ascii ''search_terms'', ascii ''special_unicode'']"

fun required_inputs_loop :: "event \<Rightarrow> pystr list \<Rightarrow> exn + unit" where
  "required_inputs_loop event [] = Inr ()"
| "required_inputs_loop event (required_input # rest) =
     (if event required_input = None
      then Inl (ValueError
             (ascii ''The provided event payload is missing required input - '' @ required_input))
      else required_inputs_loop event rest)"

text \<open>The \<^verbatim>\<open>assert\<close> (assertions are enabled, as they are by default) evaluates its
  conjunction from the left and stops at the first false conjunct; \<^verbatim>\<open>type(x) == list\<close>
  holds of lists only.\<close>

definition verify_event_payload :: "event \<Rightarrow> exn + unit" where
  "verify_event_payload event =
     (case required_inputs_loop event required_inputs of
        Inl e \<Rightarrow> Inl e
      | Inr u \<Rightarrow>
         (case getitem event (ascii ''search_terms'') of
            Inl e \<Rightarrow> Inl e
          | Inr search_terms \<Rightarrow>
              if type_of search_terms = TList then
                (case getitem event (ascii ''special_unicode'') of
                   Inl e \<Rightarrow> Inl e
                 | Inr special_unicode \<Rightarrow>
                     if type_of special_unicode = TList then Inr () else Inl AssertionError)
              else Inl AssertionError))"

definition get_authorized_tweepy_client ::
  "world \<Rightarrow> pyval \<Rightarrow> pyval \<Rightarrow> pyval \<Rightarrow> pyval \<Rightarrow> tweepy_client action" where
  "get_authorized_tweepy_client w consumer_key consumer_secret access_token access_token_secret calls =
     (tweepy_API w consumer_key consumer_secret access_token access_token_secret,
      calls @ [OAuth consumer_key consumer_secret access_token access_token_secret])"

definition get_matching_tweets ::
  "world \<Rightarrow> pyval \<Rightarrow> pyval \<Rightarrow> pyval \<Rightarrow> tweepy_client \<Rightarrow> pystr list action" where
  "get_matching_tweets w screen_name search_terms special_unicode client calls =
     (case user_timeline client screen_name of
        Inl e \<Rightarrow> (Inl e, calls @ [UserTimeline screen_name])
      | Inr user_tweets \<Rightarrow>
          (tweets_loop (str_lower w) user_tweets search_terms special_unicode [],
           calls @ [UserTimeline screen_name]))"

text \<open>\<^verbatim>\<open>os.environ[name]\<close>.\<close>

definition environ_getitem :: "world \<Rightarrow> pystr \<Rightarrow> pystr action" where
  "environ_getitem w name calls = (getitem (os_environ w) name, calls @ [EnvironRead name])"

text \<open>The handler.  The arguments of a call are evaluated from the left before the call;
  the separator \<^verbatim>\<open>"\n\n"\<close> is the code point 10 twice; the message is joined before the
  test on the number of matches.\<close>

definition lambda_handler :: "world \<Rightarrow> event \<Rightarrow> pyval action" where
  "lambda_handler w event =
     and_then (pure_step (verify_event_payload event)) (\<lambda>u.
     and_then (pure_step (getitem event (ascii ''consumer_key''))) (\<lambda>consumer_key.
     and_then (pure_step (getitem event (ascii ''consumer_secret''))) (\<lambda>consumer_secret.
     and_then (pure_step (getitem event (ascii ''access_token''))) (\<lambda>access_token.
     and_then (pure_step (getitem event (ascii ''access_token_secret''))) (\<lambda>access_token_secret.
     and_then (get_authorized_tweepy_client w
                 consumer_key consumer_secret access_token access_token_secret) (\<lambda>tweepy_client.
     and_then (pure_step (getitem event (ascii ''screen_name''))) (\<lambda>screen_name.
     and_then (pure_step (getitem event (ascii ''search_terms''))) (\<lambda>search_terms.
     and_then (pure_step (getitem event (ascii ''special_unicode''))) (\<lambda>special_unicode.
     and_then (get_matching_tweets w screen_name search_terms special_unicode tweepy_client)
       (\<lambda>matching_tweets.
     let message = str_join [10, 10] matching_tweets;
         response = PDict []
     in if length matching_tweets > 0 then
          and_then (environ_getitem w (ascii ''sns_topic_arn'')) (\<lambda>sns_topic_arn.
          and_then (get_sns_client w None) (\<lambda>sns_client.
          and_then (pure_step (getitem event (ascii ''subject''))) (\<lambda>subject.
          send_message message subject sns_topic_arn sns_client)))
        else pure_step (Inr response)))))))))))"

section \<open>The matching condition as the specification words it\<close>

text \<open>A post satisfies the criteria when every term, lower-cased, occurs as a substring of
  the lower-cased text, and every required code point is the code point of one of the
  characters of the text.  The loops above are compared with this predicate.\<close>

definition post_satisfies :: "(pystr \<Rightarrow> pystr) \<Rightarrow> pystr list \<Rightarrow> int list \<Rightarrow> pystr \<Rightarrow> bool" where
  "post_satisfies lower terms codes t \<longleftrightarrow>
     (\<forall>s\<in>set terms. sublist (lower s) (lower t)) \<and> (\<forall>c\<in>set codes. c \<in> int ` set t)"

section \<open>A concrete invocation\<close>

text \<open>The first end-to-end scenario of the specification: the feed holds two posts, the
  request asks for the term \<^verbatim>\<open>sale\<close> and no code point.\<close>

definition example_posts :: "tweet list" where
  "example_posts = [\<lparr>text' = ascii ''Big SALE today!''\<rparr>, \<lparr>text' = ascii ''no deal here''\<rparr>]"

definition example_tweepy_client :: tweepy_client where
  "example_tweepy_client = \<lparr>user_timeline = (\<lambda>screen_name. Inr example_posts)\<rparr>"

definition example_sns_client :: sns_client where
  "example_sns_client =
     \<lparr>publish = (\<lambda>topic_arn message subject.
        Inr (PDict [(ascii ''MessageId'', PStr (ascii ''m-1''))]))\<rparr>"

definition example_world :: world where
  "example_world =
     \<lparr>str_lower = lower_ascii,
      tweepy_API = (\<lambda>ck cs tok sec. Inr example_tweepy_client),
      os_environ = [ascii ''sns_topic_arn'' \<mapsto> ascii ''arn:aws:sns:restock''],
      boto3_client = (\<lambda>service. Inr example_sns_client)\<rparr>"

definition example_event :: event where
  "example_event =
     [ascii ''subject'' \<mapsto> PStr (ascii ''Restock''),
      ascii ''consumer_key'' \<mapsto> PStr (ascii ''ck''),
      ascii ''consumer_secret'' \<mapsto> PStr (ascii ''cs''),
      ascii ''access_token'' \<mapsto> PStr (ascii ''tok''),
      ascii ''access_token_secret'' \<mapsto> PStr (ascii ''sec''),
      ascii ''screen_name'' \<mapsto> PStr (ascii ''shop''),
      ascii ''search_terms'' \<mapsto> PList [PStr (ascii ''sale'')],
      ascii ''special_unicode'' \<mapsto> PList []]"

text \<open>
  A Greek feed.  The term is \<^verbatim>\<open>PI RHO OMICRON SIGMA\<close> (U+03A0 U+03A1 U+039F U+03A3), the
  post is that word followed by \<^verbatim>\<open>PHI OMICRON RHO ALPHA\<close>, a space and
  \<^verbatim>\<open>SIGMA ETA MU EPSILON RHO ALPHA\<close>, all in capitals: the text starts with the term.
\<close>

definition greek_term :: pystr where
  "greek_term = [928, 929, 927, 931]"

definition greek_post :: tweet where
  "greek_post =
     \<lparr>text' = [928, 929, 927, 931, 934, 927, 929, 913, 32, 931, 919, 924, 917, 929, 913]\<rparr>"

definition greek_tweepy_client :: tweepy_client where
  "greek_tweepy_client = \<lparr>user_timeline = (\<lambda>screen_name. Inr [greek_post])\<rparr>"

definition greek_world :: world where
  "greek_world =
     \<lparr>str_lower = py_lower,
      tweepy_API = (\<lambda>ck cs tok sec. Inr greek_tweepy_client),
      os_environ = [ascii ''sns_topic_arn'' \<mapsto> ascii ''arn:aws:sns:restock''],
      boto3_client = (\<lambda>service. Inr example_sns_client)\<rparr>"

section \<open>Properties of the matching loop\<close>

lemma ascii_eq_iff [simp]: "ascii a = ascii b \<longleftrightarrow> a = b"
  unfolding ascii_def by (simp add: inj_map_eq_map inj_of_char)

lemma search_terms_loop_strs:
  "search_terms_loop lower t (map PStr terms) m =
     Inr (m \<and> (\<forall>s\<in>set terms. sublist (lower s) (lower t)))"
  by (induction terms) auto

lemma special_unicode_loop_ints:
  "special_unicode_loop S (map PInt codes) m = Inr (m \<and> (\<forall>c\<in>set codes. c \<in> S))"
  by (induction codes) auto

lemma tweet_matching_typed:
  "tweet_matching lower t (PList (map PStr terms)) (PList (map PInt codes)) =
     Inr (post_satisfies lower terms codes t)"
  by (simp add: tweet_matching_def search_terms_loop_strs special_unicode_loop_ints
      post_satisfies_def py_ord_def)

text \<open>The accumulator is generalised: each iteration may extend it.\<close>

lemma tweets_loop_typed:
  "tweets_loop lower tweets (PList (map PStr terms)) (PList (map PInt codes)) acc =
     Inr (acc @ map text' (filter (\<lambda>tw. post_satisfies lower terms codes (text' tw)) tweets))"
  by (induction tweets arbitrary: acc) (simp_all add: tweet_matching_typed)

lemma get_matching_tweets_typed:
  "user_timeline client screen_name = Inr posts \<Longrightarrow>
   get_matching_tweets w screen_name (PList (map PStr terms)) (PList (map PInt codes)) client calls =
     (Inr (map text' (filter (\<lambda>tw. post_satisfies (str_lower w) terms codes (text' tw)) posts)),
      calls @ [UserTimeline screen_name])"
  by (simp add: get_matching_tweets_def tweets_loop_typed)

lemma sublist_sale:
  "sublist (lower_ascii (ascii ''sale'')) (lower_ascii (ascii ''Big SALE today!''))"
  by (simp add: lower_ascii_def ascii_def sublist_Cons_right)

lemma not_sublist_sale:
  "\<not> sublist (lower_ascii (ascii ''sale'')) (lower_ascii (ascii ''no deal here''))"
  by (simp add: lower_ascii_def ascii_def sublist_Cons_right)

lemma lower_ascii_empty: "\<forall>s. (lower_ascii s = []) = (s = [])"
  by (simp add: lower_ascii_def)

text \<open>
  C1.  \<^verbatim>\<open>_get_matching_tweets\<close> is to return the text of every post in which each search
  term occurs, case being ignored.  On the Greek feed it does not: the term occurs in the
  text of the post as it stands, at its start, but \<^verbatim>\<open>str.lower\<close> ends the term with the
  final sigma (962) and writes the small sigma (963) at that place of the text, so the
  lower-cased term is not a substring of the lower-cased text and the post is dropped:
  the result is the empty list.
\<close>

theorem final_sigma_post_dropped:
  "sublist greek_term (text' greek_post)
   \<and> py_lower greek_term = [960, 961, 959, 962]
   \<and> py_lower (text' greek_post) =
       [960, 961, 959, 963, 966, 959, 961, 945, 32, 963, 951, 956, 949, 961, 945]
   \<and> fst (get_matching_tweets greek_world (PStr (ascii ''shop''))
            (PList [PStr greek_term]) (PList []) greek_tweepy_client []) = Inr []"
proof -
  have a: "sublist greek_term (text' greek_post)"
    by (simp add: greek_term_def greek_post_def sublist_Cons_right)
  have b: "py_lower greek_term = [960, 961, 959, 962]"
    by (simp add: py_lower_def greek_term_def final_sigma_def to_lower_def is_cased_def
        is_case_ignorable_def)
  have c: "py_lower (text' greek_post) =
       [960, 961, 959, 963, 966, 959, 961, 945, 32, 963, 951, 956, 949, 961, 945]"
    by (simp add: py_lower_def greek_post_def final_sigma_def to_lower_def is_cased_def
        is_case_ignorable_def)
  have d: "\<not> sublist (py_lower greek_term) (py_lower (text' greek_post))"
    unfolding b c by (simp add: sublist_Cons_right)
  have "fst (get_matching_tweets greek_world (PStr (ascii ''shop''))
            (PList [PStr greek_term]) (PList []) greek_tweepy_client []) = Inr []"
    using d
    by (simp add: get_matching_tweets_def greek_tweepy_client_def greek_world_def
        tweet_matching_def)
  with a b c show ?thesis by simp
qed

section \<open>The composed message\<close>






section \<open>Edge cases and monotonicity of the filter\<close>

lemma post_satisfies_empty_text:
  assumes "\<forall>s. (lower s = []) = (s = [])"
    and "(\<exists>t\<in>set terms. t \<noteq> []) \<or> codes \<noteq> []"
  shows "\<not> post_satisfies lower terms codes []"
proof -
  from assms(1) have e: "lower [] = []" by simp
  from assms(1) have n: "sublist (lower t) [] \<longleftrightarrow> t = []" for t by simp
  from assms(2) show ?thesis
  proof
    assume "\<exists>t\<in>set terms. t \<noteq> []"
    then obtain t where "t \<in> set terms" "\<not> sublist (lower t) (lower [])"
      using e n by auto
    then show ?thesis unfolding post_satisfies_def by blast
  next
    assume "codes \<noteq> []"
    then show ?thesis by (cases codes) (auto simp: post_satisfies_def)
  qed
qed

lemma filter_subseq_mono:
  "(\<And>x. x \<in> set xs \<Longrightarrow> P x \<Longrightarrow> Q x) \<Longrightarrow> subseq (filter P xs) (filter Q xs)"
proof (induction xs)
  case Nil
  then show ?case by simp
next
  case (Cons a xs)
  then have "subseq (filter P xs) (filter Q xs)" by simp
  with Cons.prems show ?case by (auto intro: subseq_Cons')
qed

text \<open>
  C8.  A post whose text is empty fails to match as soon as the search terms hold a
  non-empty term or a code point is required: the loop body ends with \<^verbatim>\<open>matching = False\<close>,
  and no result of the filter over any feed holds an empty text.  \<^verbatim>\<open>str.lower\<close> is only
  required to map the empty string, and no other, to the empty string.
\<close>

theorem empty_text_never_matches:
  assumes "\<forall>s. (lower s = []) = (s = [])"
    and "(\<exists>t\<in>set terms. t \<noteq> []) \<or> codes \<noteq> []"
  shows "tweet_matching lower [] (PList (map PStr terms)) (PList (map PInt codes)) = Inr False
    \<and> (\<exists>r. tweets_loop lower posts (PList (map PStr terms)) (PList (map PInt codes)) [] = Inr r
           \<and> [] \<notin> set r)"
  using post_satisfies_empty_text[OF assms]
  by (auto simp: tweet_matching_typed tweets_loop_typed)

theorem empty_text_never_matches_witness:
  "tweet_matching lower_ascii [] (PList (map PStr [ascii ''sale''])) (PList (map PInt [])) = Inr False
   \<and> (\<exists>r. tweets_loop lower_ascii [\<lparr>text' = []\<rparr>, \<lparr>text' = ascii ''Big SALE today!''\<rparr>]
            (PList (map PStr [ascii ''sale''])) (PList (map PInt [])) [] = Inr r \<and> [] \<notin> set r)"
proof -
  have h: "(\<exists>t\<in>set [ascii ''sale'']. t \<noteq> []) \<or> ([]::int list) \<noteq> []"
    by (simp add: ascii_def)
  show ?thesis
    using empty_text_never_matches[OF lower_ascii_empty h] by blast
qed

text \<open>
  C9.  Strengthening the criteria never adds matches: when the terms and the code points
  of one request are among those of a second one, both filters return, the result of the
  second is a subsequence of the result of the first, and the result of the first is a
  subsequence of the texts of the feed.
\<close>

theorem stronger_criteria_subsequence:
  assumes "set terms \<subseteq> set terms'" and "set codes \<subseteq> set codes'"
  shows "\<exists>r r'. tweets_loop lower posts (PList (map PStr terms)) (PList (map PInt codes)) [] = Inr r
      \<and> tweets_loop lower posts (PList (map PStr terms')) (PList (map PInt codes')) [] = Inr r'
      \<and> subseq r' r \<and> subseq r (map text' posts)"
proof -
  have "post_satisfies lower terms' codes' t \<Longrightarrow> post_satisfies lower terms codes t" for t
    using assms by (auto simp: post_satisfies_def)
  then have "subseq (filter (\<lambda>tw. post_satisfies lower terms' codes' (text' tw)) posts)
                    (filter (\<lambda>tw. post_satisfies lower terms codes (text' tw)) posts)"
    by (intro filter_subseq_mono) blast
  then show ?thesis
    by (simp add: tweets_loop_typed subseq_map)
qed

theorem stronger_criteria_subsequence_witness:
  "set ([] :: pystr list) \<subseteq> set [ascii ''sale''] \<and> set [32 :: int] \<subseteq> set [32, 33] \<and>
   (\<exists>r r'. tweets_loop lower_ascii example_posts (PList (map PStr [])) (PList (map PInt [32])) []
              = Inr r
      \<and> tweets_loop lower_ascii example_posts (PList (map PStr [ascii ''sale'']))
              (PList (map PInt [32, 33])) [] = Inr r'
      \<and> subseq r' r \<and> subseq r (map text' example_posts))"
proof -
  have a: "set ([] :: pystr list) \<subseteq> set [ascii ''sale'']" by simp
  have b: "set [32 :: int] \<subseteq> set [32, 33]" by simp
  show ?thesis
    using a b stronger_criteria_subsequence[OF a b, of lower_ascii example_posts] by blast
qed

text \<open>
  C10.  An empty search term imposes no constraint: with the single term \<^verbatim>\<open>""\<close> and no code
  point the filter returns the text of every post, as it does with no term at all, and
  removing the empty terms from any list of terms leaves the result unchanged.
  \<^verbatim>\<open>str.lower\<close> is only required to map the empty string to itself.
\<close>

theorem empty_term_no_constraint:
  assumes "lower [] = []"
  shows "tweets_loop lower posts (PList [PStr []]) (PList []) [] = Inr (map text' posts)
    \<and> tweets_loop lower posts (PList [PStr []]) (PList []) [] =
        tweets_loop lower posts (PList []) (PList []) []
    \<and> tweets_loop lower posts (PList (map PStr terms)) (PList (map PInt codes)) [] =
        tweets_loop lower posts (PList (map PStr (filter (\<lambda>t. t \<noteq> []) terms)))
          (PList (map PInt codes)) []"
proof -
  have a: "post_satisfies lower [[]] [] t" for t
    using assms by (simp add: post_satisfies_def)
  have b: "post_satisfies lower [] [] t" for t
    by (simp add: post_satisfies_def)
  have c: "post_satisfies lower terms codes t =
           post_satisfies lower (filter (\<lambda>t. t \<noteq> []) terms) codes t" for t
    using assms by (auto simp: post_satisfies_def)
  have "tweets_loop lower posts (PList (map PStr [[]])) (PList (map PInt [])) [] =
      Inr (map text' posts)"
    unfolding tweets_loop_typed by (simp add: a)
  moreover have "tweets_loop lower posts (PList (map PStr [])) (PList (map PInt [])) [] =
      Inr (map text' posts)"
    unfolding tweets_loop_typed by (simp add: b)
  moreover have "tweets_loop lower posts (PList (map PStr terms)) (PList (map PInt codes)) [] =
        tweets_loop lower posts (PList (map PStr (filter (\<lambda>t. t \<noteq> []) terms)))
          (PList (map PInt codes)) []"
    unfolding tweets_loop_typed using c by simp
  ultimately show ?thesis by simp
qed

theorem empty_term_no_constraint_witness:
  "lower_ascii [] = [] \<and>
   tweets_loop lower_ascii example_posts (PList [PStr []]) (PList []) [] =
     Inr [ascii ''Big SALE today!'', ascii ''no deal here'']"
proof -
  have h: "lower_ascii [] = []" by (simp add: lower_ascii_def)
  show ?thesis
    using h empty_term_no_constraint[of lower_ascii example_posts "[]" "[]", OF h]
    by (simp add: example_posts_def)
qed

section \<open>Validation\<close>

lemma required_inputs_loop_find:
  "required_inputs_loop event ks =
     (case find (\<lambda>k. event k = None) ks of
        None \<Rightarrow> Inr ()
      | Some k \<Rightarrow> Inl (ValueError
            (ascii ''The provided event payload is missing required input - '' @ k)))"
  by (induction ks) simp_all

lemma required_inputs_loop_ok:
  "required_inputs_loop event ks = Inr () \<longleftrightarrow> (\<forall>k\<in>set ks. event k \<noteq> None)"
  by (induction ks) simp_all

lemma verify_missing:
  "find (\<lambda>k. event k = None) required_inputs = Some k \<Longrightarrow>
   verify_event_payload event =
     Inl (ValueError (ascii ''The provided event payload is missing required input - '' @ k))"
  by (simp add: verify_event_payload_def required_inputs_loop_find)

lemma verify_present:
  assumes "\<forall>k\<in>set required_inputs. event k \<noteq> None"
    and "event (ascii ''search_terms'') = Some st"
    and "event (ascii ''special_unicode'') = Some su"
  shows "verify_event_payload event =
     (if type_of st = TList \<and> type_of su = TList then Inr () else Inl AssertionError)"
  using assms(1)
  by (simp add: verify_event_payload_def required_inputs_loop_ok[THEN iffD2] getitem_def assms(2,3))

lemma verify_ok_fields:
  assumes "verify_event_payload event = Inr ()"
  shows "\<exists>subject ck cs tok sec sn st su.
      event (ascii ''subject'') = Some subject \<and>
      event (ascii ''consumer_key'') = Some ck \<and>
      event (ascii ''consumer_secret'') = Some cs \<and>
      event (ascii ''access_token'') = Some tok \<and>
      event (ascii ''access_token_secret'') = Some sec \<and>
      event (ascii ''screen_name'') = Some sn \<and>
      event (ascii ''search_terms'') = Some (PList st) \<and>
      event (ascii ''special_unicode'') = Some (PList su)"
proof -
  have ok: "required_inputs_loop event required_inputs = Inr ()"
    using assms by (simp add: verify_event_payload_def split: sum.splits)
  then have p: "\<forall>k\<in>set required_inputs. event k \<noteq> None"
    by (simp add: required_inputs_loop_ok)
  then obtain st su where s: "event (ascii ''search_terms'') = Some st"
      "event (ascii ''special_unicode'') = Some su"
    by (auto simp: required_inputs_def)
  from assms verify_present[OF p s] have "type_of st = TList" "type_of su = TList"
    by (simp_all split: if_splits)
  then obtain xs ys where "st = PList xs" "su = PList ys"
    by (cases st; cases su) simp_all
  with s p show ?thesis by (auto simp: required_inputs_def)
qed

lemma handler_invalid:
  "verify_event_payload event = Inl e \<Longrightarrow> lambda_handler w event calls = (Inl e, calls)"
  by (simp add: lambda_handler_def and_then_def pure_step_def)

text \<open>
  C2.  When the request lacks at least one required field, \<^verbatim>\<open>_verify_event_payload\<close> raises
  the \<^verbatim>\<open>ValueError\<close> whose message names the first missing field in the order subject,
  consumer_key, consumer_secret, access_token, access_token_secret, screen_name,
  search_terms, special_unicode, and the handler ends with that exception having made no
  call to a collaborator (the recorded calls are unchanged).
\<close>

theorem missing_field_rejected:
  assumes "\<exists>k\<in>set required_inputs. event k = None"
  shows "\<exists>k. find (\<lambda>k. event k = None)
              [ascii ''subject'', ascii ''consumer_key'', ascii ''consumer_secret'',
               ascii ''access_token'', ascii ''access_token_secret'', ascii ''screen_name'',
               ascii ''search_terms'', ascii ''special_unicode''] = Some k
      \<and> verify_event_payload event =
          Inl (ValueError (ascii ''The provided event payload is missing required input - '' @ k))
      \<and> lambda_handler w event calls =
          (Inl (ValueError (ascii ''The provided event payload is missing required input - '' @ k)),
           calls)"
proof -
  from assms obtain k where k: "find (\<lambda>k. event k = None) required_inputs = Some k"
    by (cases "find (\<lambda>k. event k = None) required_inputs") (auto simp: find_None_iff)
  from verify_missing[OF k] handler_invalid[of event _ w calls] k
  show ?thesis by (simp add: required_inputs_def)
qed

theorem missing_field_rejected_witness:
  "(\<exists>k\<in>set required_inputs. (example_event(ascii ''access_token'' := None)) k = None) \<and>
   lambda_handler example_world (example_event(ascii ''access_token'' := None)) [] =
     (Inl (ValueError
        (ascii ''The provided event payload is missing required input - access_token'')), [])"
proof -
  let ?ev = "example_event(ascii ''access_token'' := None)"
  have h: "\<exists>k\<in>set required_inputs. ?ev k = None"
    by (simp add: required_inputs_def)
  have f: "find (\<lambda>k. ?ev k = None)
              [ascii ''subject'', ascii ''consumer_key'', ascii ''consumer_secret'',
               ascii ''access_token'', ascii ''access_token_secret'', ascii ''screen_name'',
               ascii ''search_terms'', ascii ''special_unicode''] = Some (ascii ''access_token'')"
    by (simp add: example_event_def)
  have m: "ascii ''The provided event payload is missing required input - '' @ ascii ''access_token''
      = ascii ''The provided event payload is missing required input - access_token''"
    by (simp add: ascii_def)
  from missing_field_rejected[OF h, of example_world "[]"] obtain k
    where k: "find (\<lambda>k. ?ev k = None)
              [ascii ''subject'', ascii ''consumer_key'', ascii ''consumer_secret'',
               ascii ''access_token'', ascii ''access_token_secret'', ascii ''screen_name'',
               ascii ''search_terms'', ascii ''special_unicode''] = Some k"
      and r: "lambda_handler example_world ?ev [] =
          (Inl (ValueError (ascii ''The provided event payload is missing required input - '' @ k)),
           [])"
    by blast
  from k f have "k = ascii ''access_token''" by (simp only: option.inject)
  with r m have "lambda_handler example_world ?ev [] =
     (Inl (ValueError
        (ascii ''The provided event payload is missing required input - access_token'')), [])"
    by (simp only:)
  with h show ?thesis by blast
qed

text \<open>
  C3.  When every required field is present and the value of \<^verbatim>\<open>search_terms\<close> or of
  \<^verbatim>\<open>special_unicode\<close> is not a list (in particular when it is not a sequence at all, such
  as a number), \<^verbatim>\<open>_verify_event_payload\<close> fails: its assertion raises \<^verbatim>\<open>AssertionError\<close>,
  and the handler ends with it before any call.
\<close>

theorem non_list_rejected:
  assumes "\<forall>k\<in>set required_inputs. event k \<noteq> None"
    and "event (ascii ''search_terms'') = Some st"
    and "event (ascii ''special_unicode'') = Some su"
    and "type_of st \<noteq> TList \<or> type_of su \<noteq> TList"
  shows "verify_event_payload event = Inl AssertionError
     \<and> lambda_handler w event calls = (Inl AssertionError, calls)"
proof -
  from verify_present[OF assms(1-3)] assms(4)
  have "verify_event_payload event = Inl AssertionError" by auto
  then show ?thesis by (simp add: handler_invalid)
qed

theorem non_list_rejected_witness:
  "verify_event_payload (example_event(ascii ''special_unicode'' \<mapsto> PInt 233)) = Inl AssertionError
   \<and> lambda_handler example_world (example_event(ascii ''special_unicode'' \<mapsto> PInt 233)) [] =
       (Inl AssertionError, [])"
proof -
  let ?ev = "example_event(ascii ''special_unicode'' \<mapsto> PInt 233)"
  have a: "\<forall>k\<in>set required_inputs. ?ev k \<noteq> None"
    by (simp add: required_inputs_def example_event_def)
  have b: "?ev (ascii ''search_terms'') = Some (PList [PStr (ascii ''sale'')])"
    by (simp add: example_event_def)
  have c: "?ev (ascii ''special_unicode'') = Some (PInt 233)"
    by simp
  have d: "type_of (PList [PStr (ascii ''sale'')]) \<noteq> TList \<or> type_of (PInt 233) \<noteq> TList"
    by simp
  from non_list_rejected[OF a b c d, of example_world "[]"] show ?thesis .
qed

section \<open>The handler\<close>

lemma handler_valid:
  assumes "verify_event_payload event = Inr ()"
    and "event (ascii ''subject'') = Some subject"
    and "event (ascii ''consumer_key'') = Some ck"
    and "event (ascii ''consumer_secret'') = Some cs"
    and "event (ascii ''access_token'') = Some tok"
    and "event (ascii ''access_token_secret'') = Some sec"
    and "event (ascii ''screen_name'') = Some sn"
    and "event (ascii ''search_terms'') = Some st"
    and "event (ascii ''special_unicode'') = Some su"
  shows "lambda_handler w event calls =
    (case tweepy_API w ck cs tok sec of
       Inl e \<Rightarrow> (Inl e, calls @ [OAuth ck cs tok sec])
     | Inr client \<Rightarrow>
        (case user_timeline client sn of
           Inl e \<Rightarrow> (Inl e, calls @ [OAuth ck cs tok sec, UserTimeline sn])
         | Inr posts \<Rightarrow>
            (case tweets_loop (str_lower w) posts st su [] of
               Inl e \<Rightarrow> (Inl e, calls @ [OAuth ck cs tok sec, UserTimeline sn])
             | Inr ms \<Rightarrow>
                 if ms = [] then (Inr (PDict []), calls @ [OAuth ck cs tok sec, UserTimeline sn])
                 else
                  (case os_environ w (ascii ''sns_topic_arn'') of
                     None \<Rightarrow> (Inl (KeyError (ascii ''sns_topic_arn'')),
                        calls @ [OAuth ck cs tok sec, UserTimeline sn,
                                 EnvironRead (ascii ''sns_topic_arn'')])
                   | Some topic \<Rightarrow>
                      (case boto3_client w (ascii ''sns'') of
                         Inl e \<Rightarrow> (Inl e,
                            calls @ [OAuth ck cs tok sec, UserTimeline sn,
                                     EnvironRead (ascii ''sns_topic_arn''),
                                     Boto3Client (ascii ''sns'')])
                       | Inr sns \<Rightarrow>
                           (publish sns topic (str_join [10, 10] ms) subject,
                            calls @ [OAuth ck cs tok sec, UserTimeline sn,
                                     EnvironRead (ascii ''sns_topic_arn''),
                                     Boto3Client (ascii ''sns''),
                                     Publish topic (str_join [10, 10] ms) subject]))))))"
  using assms
  by (simp add: lambda_handler_def and_then_def pure_step_def getitem_def
      get_authorized_tweepy_client_def get_matching_tweets_def environ_getitem_def
      get_sns_client_def get_aws_client_def send_message_def Let_def
      split: sum.splits option.splits)


lemma verify_example_lists:
  assumes "event = example_event(ascii ''search_terms'' \<mapsto> PList xs)"
  shows "verify_event_payload event = Inr ()"
proof -
  have a: "\<forall>k\<in>set required_inputs. event k \<noteq> None"
    by (simp add: assms required_inputs_def example_event_def)
  have b: "event (ascii ''search_terms'') = Some (PList xs)"
    by (simp add: assms)
  have c: "event (ascii ''special_unicode'') = Some (PList [])"
    by (simp add: assms example_event_def)
  from verify_present[OF a b c] show ?thesis by simp
qed

lemma not_sublist_restock:
  "\<not> sublist (lower_ascii (ascii ''restock'')) (lower_ascii (ascii ''Big SALE today!''))"
  "\<not> sublist (lower_ascii (ascii ''restock'')) (lower_ascii (ascii ''no deal here''))"
  by (simp_all add: lower_ascii_def ascii_def sublist_Cons_right)

lemma example_event_fields:
  "example_event (ascii ''subject'') = Some (PStr (ascii ''Restock''))"
  "example_event (ascii ''consumer_key'') = Some (PStr (ascii ''ck''))"
  "example_event (ascii ''consumer_secret'') = Some (PStr (ascii ''cs''))"
  "example_event (ascii ''access_token'') = Some (PStr (ascii ''tok''))"
  "example_event (ascii ''access_token_secret'') = Some (PStr (ascii ''sec''))"
  "example_event (ascii ''screen_name'') = Some (PStr (ascii ''shop''))"
  "example_event (ascii ''search_terms'') = Some (PList [PStr (ascii ''sale'')])"
  "example_event (ascii ''special_unicode'') = Some (PList [])"
  by (simp_all add: example_event_def)

lemma example_event_valid: "verify_event_payload example_event = Inr ()"
proof -
  have a: "\<forall>k\<in>set required_inputs. example_event k \<noteq> None"
    by (simp add: required_inputs_def example_event_def)
  from verify_present[OF a example_event_fields(7,8)] show ?thesis by simp
qed

lemma example_matches:
  "tweets_loop lower_ascii example_posts (PList [PStr (ascii ''sale'')]) (PList []) [] =
     Inr [ascii ''Big SALE today!'']"
  using tweets_loop_typed[of lower_ascii example_posts "[ascii ''sale'']" "[]" "[]"]
  by (simp add: example_posts_def post_satisfies_def sublist_sale not_sublist_sale)

text \<open>
  C4.  For a valid request whose feed yields no matching post, the handler returns the
  empty dictionary; the calls it made are the construction of the feed client and the
  feed request only, so the topic variable is not read and nothing is published.
\<close>

theorem no_match_no_publish:
  assumes "verify_event_payload event = Inr ()"
    and "event (ascii ''consumer_key'') = Some ck"
    and "event (ascii ''consumer_secret'') = Some cs"
    and "event (ascii ''access_token'') = Some tok"
    and "event (ascii ''access_token_secret'') = Some sec"
    and "event (ascii ''screen_name'') = Some sn"
    and "event (ascii ''search_terms'') = Some st"
    and "event (ascii ''special_unicode'') = Some su"
    and "tweepy_API w ck cs tok sec = Inr client"
    and "user_timeline client sn = Inr posts"
    and "tweets_loop (str_lower w) posts st su [] = Inr []"
  shows "lambda_handler w event calls =
           (Inr (PDict []), calls @ [OAuth ck cs tok sec, UserTimeline sn])
     \<and> EnvironRead (ascii ''sns_topic_arn'') \<notin> set (snd (lambda_handler w event []))
     \<and> (\<forall>topic_arn message subject.
           Publish topic_arn message subject \<notin> set (snd (lambda_handler w event [])))"
proof -
  from verify_ok_fields[OF assms(1)] obtain subject
    where s: "event (ascii ''subject'') = Some subject" by blast
  have "lambda_handler w event cl =
           (Inr (PDict []), cl @ [OAuth ck cs tok sec, UserTimeline sn])" for cl
    by (simp add: handler_valid[OF assms(1) s assms(2-8)] assms(9-11))
  then show ?thesis by simp
qed

theorem no_match_no_publish_witness:
  "lambda_handler example_world
     (example_event(ascii ''search_terms'' \<mapsto> PList [PStr (ascii ''restock'')])) [] =
     (Inr (PDict []),
      [OAuth (PStr (ascii ''ck'')) (PStr (ascii ''cs'')) (PStr (ascii ''tok'')) (PStr (ascii ''sec'')),
       UserTimeline (PStr (ascii ''shop''))])"
proof -
  let ?ev = "example_event(ascii ''search_terms'' \<mapsto> PList [PStr (ascii ''restock'')])"
  have v: "verify_event_payload ?ev = Inr ()"
    by (rule verify_example_lists) simp
  have f: "?ev (ascii ''consumer_key'') = Some (PStr (ascii ''ck''))"
    "?ev (ascii ''consumer_secret'') = Some (PStr (ascii ''cs''))"
    "?ev (ascii ''access_token'') = Some (PStr (ascii ''tok''))"
    "?ev (ascii ''access_token_secret'') = Some (PStr (ascii ''sec''))"
    "?ev (ascii ''screen_name'') = Some (PStr (ascii ''shop''))"
    "?ev (ascii ''search_terms'') = Some (PList [PStr (ascii ''restock'')])"
    "?ev (ascii ''special_unicode'') = Some (PList [])"
    by (simp_all add: example_event_def)
  have c: "tweepy_API example_world (PStr (ascii ''ck'')) (PStr (ascii ''cs''))
             (PStr (ascii ''tok'')) (PStr (ascii ''sec'')) = Inr example_tweepy_client"
    by (simp add: example_world_def)
  have t: "user_timeline example_tweepy_client (PStr (ascii ''shop'')) = Inr example_posts"
    by (simp add: example_tweepy_client_def)
  have m: "tweets_loop (str_lower example_world) example_posts
             (PList [PStr (ascii ''restock'')]) (PList []) [] = Inr []"
    using tweets_loop_typed[of lower_ascii example_posts "[ascii ''restock'']" "[]" "[]"]
    by (simp add: example_world_def example_posts_def post_satisfies_def not_sublist_restock)
  from no_match_no_publish[OF v f c t m, of "[]"] show ?thesis
    by (simp only: append_Nil)
qed

text \<open>
  C5.  For a valid request whose filter returns the matches \<open>ms\<close>, the environment
  variable \<^verbatim>\<open>sns_topic_arn\<close> is read exactly when \<open>ms\<close> is not empty; when the variable is
  absent the handler ends with \<^verbatim>\<open>KeyError\<close> for it exactly when \<open>ms\<close> is not empty, and with
  no match it returns the empty dictionary without error.
\<close>

theorem topic_lookup_only_on_publish_path:
  assumes "verify_event_payload event = Inr ()"
    and "event (ascii ''consumer_key'') = Some ck"
    and "event (ascii ''consumer_secret'') = Some cs"
    and "event (ascii ''access_token'') = Some tok"
    and "event (ascii ''access_token_secret'') = Some sec"
    and "event (ascii ''screen_name'') = Some sn"
    and "event (ascii ''search_terms'') = Some st"
    and "event (ascii ''special_unicode'') = Some su"
    and "tweepy_API w ck cs tok sec = Inr client"
    and "user_timeline client sn = Inr posts"
    and "tweets_loop (str_lower w) posts st su [] = Inr ms"
  shows "(EnvironRead (ascii ''sns_topic_arn'') \<in> set (snd (lambda_handler w event []))
            \<longleftrightarrow> ms \<noteq> [])
     \<and> (os_environ w (ascii ''sns_topic_arn'') = None \<longrightarrow>
          (fst (lambda_handler w event calls) = Inl (KeyError (ascii ''sns_topic_arn''))
             \<longleftrightarrow> ms \<noteq> [])
          \<and> (ms = [] \<longrightarrow> fst (lambda_handler w event calls) = Inr (PDict [])))"
proof -
  from verify_ok_fields[OF assms(1)] obtain subject
    where s: "event (ascii ''subject'') = Some subject" by blast
  note H = handler_valid[OF assms(1) s assms(2-8)]
  show ?thesis
    unfolding H by (simp add: assms(9-11) split: option.splits sum.splits)
qed

theorem topic_lookup_only_on_publish_path_witness:
  "fst (lambda_handler (example_world\<lparr>os_environ := Map.empty\<rparr>) example_event []) =
     Inl (KeyError (ascii ''sns_topic_arn''))
   \<and> EnvironRead (ascii ''sns_topic_arn'')
       \<in> set (snd (lambda_handler (example_world\<lparr>os_environ := Map.empty\<rparr>) example_event []))"
proof -
  let ?w = "example_world\<lparr>os_environ := Map.empty\<rparr>"
  have c: "tweepy_API ?w (PStr (ascii ''ck'')) (PStr (ascii ''cs''))
             (PStr (ascii ''tok'')) (PStr (ascii ''sec'')) = Inr example_tweepy_client"
    by (simp add: example_world_def)
  have t: "user_timeline example_tweepy_client (PStr (ascii ''shop'')) = Inr example_posts"
    by (simp add: example_tweepy_client_def)
  have m: "tweets_loop (str_lower ?w) example_posts
             (PList [PStr (ascii ''sale'')]) (PList []) [] = Inr [ascii ''Big SALE today!'']"
    using example_matches by (simp add: example_world_def)
  have n: "os_environ ?w (ascii ''sns_topic_arn'') = None"
    by simp
  have ne: "[ascii ''Big SALE today!''] \<noteq> []"
    by simp
  from topic_lookup_only_on_publish_path[OF example_event_valid example_event_fields(2-8) c t m,
      of "[]"] n ne
  show ?thesis by blast
qed



end
